theory Spec2Isabelle
  imports Main "HOL-Library.Sublist"
begin

section \<open>The access token holder and the cross-tab channel (lib/auth)\<close>

text \<open>
  One browser tab is one JavaScript realm: the module-level variables of lib/auth and of
  lib/api/client.ts, the parts of the browser they touch (the \<open>user\<close> item of localStorage,
  armed timeouts, the messages posted on the \<open>auth-sync\<close> channel, the location), the React
  state of the auth provider, and the requests handed to the network. Every function of the
  source that reads or writes these takes the tab and returns the tab it leaves behind.
\<close>

record StoredUser =
  user_id :: string
  email :: string
  name :: "string option"
  avatarUrl :: "string option"
  googleId :: "string option"

datatype AuthBroadcastMessage = Logout | Login StoredUser string

text \<open>
  A handle returned by \<open>window.setTimeout\<close>. Browsers hand out positive integers, so the
  truthiness test of \<open>clearTimer\<close> only tells a handle from \<open>null\<close>.
\<close>

datatype timer_handle = Timer nat

text \<open>
  An axios request configuration, as far as the interceptors read it: the url (which may be
  missing), the Authorization header, the \<open>_retry\<close> mark, and the rest of the request
  (verb and payload), which nothing here inspects.
\<close>

record request_config =
  url :: "string option"
  authorization :: "string option"
  retry :: bool
  payload :: string

text \<open>
  The error an axios call rejects with: the configuration of the request (absent when the
  failure has none), the status of the response (absent when there was no response).
\<close>

record axios_error =
  config :: "request_config option"
  response_status :: "nat option"
  message :: string

text \<open>
  How a promise handed out by the response interceptor ended: rejected with an error,
  resolved with the promise of the resubmitted request, or rejected with the TypeError that
  writing \<open>_retry\<close> on a missing configuration throws.
\<close>

datatype settlement =
    RejectedWith axios_error
  | ResolvedWithRetry request_config
  | ThrewTypeError

record tab =
  accessTokenMemory :: "string option"
  accessExpiryTimer :: "timer_handle option"
  authChannel :: bool
  localStorage_user :: "StoredUser option"
  timeouts :: "(timer_handle \<times> int) list"
  nextTimer :: nat
  posted :: "AuthBroadcastMessage list"
  pathname :: string
  navigations :: "string list"
  userState :: "StoredUser option"
  bootstrapped :: bool
  bootRefreshes :: nat
  queryClientClears :: nat
  isRefreshing :: bool
  pendingRequests :: "request_config list"
  refreshers :: "request_config list"
  sent :: "request_config list"
  settled :: "(request_config option \<times> settlement) list"

text \<open>
  \<open>refreshers\<close> holds the interceptor invocations suspended at
  \<open>await performTokenRefresh()\<close>, each with the request it will resubmit: one per refresh
  call of the interceptor in flight. \<open>bootRefreshes\<close> counts the invocations of the
  provider's \<open>attemptRefresh\<close> suspended at \<open>await rotateTokens()\<close>: one per refresh
  call of the provider in flight. \<open>sent\<close> is the log of requests handed to the network, as they leave the
  request interceptor. \<open>settled\<close> is the log of promises the response interceptor has
  settled. \<open>localStorage_user\<close> is the \<open>user\<close> item read through \<open>JSON.parse\<close>.
\<close>

text \<open>
  What the tab cannot compute by itself: the numeric \<open>exp\<close> claim in the payload segment of
  a token (absent when the segment is not base64 JSON with a numeric \<open>exp\<close>), the clock,
  and whether the browser has \<open>BroadcastChannel\<close>.
\<close>

record platform =
  jwtExpClaim :: "string \<Rightarrow> int option"
  dateNow :: int
  hasBroadcastChannel :: bool

definition initBroadcastChannel :: "platform \<Rightarrow> tab \<Rightarrow> tab" where
  "initBroadcastChannel pf st =
     (if \<not> hasBroadcastChannel pf then st
      else if \<not> authChannel st then st\<lparr>authChannel := True\<rparr>
      else st)"

definition broadcastAuthChange :: "AuthBroadcastMessage \<Rightarrow> tab \<Rightarrow> tab" where
  "broadcastAuthChange msg st =
     (if \<not> authChannel st then st else st\<lparr>posted := posted st @ [msg]\<rparr>)"

definition decodeJwtExp :: "platform \<Rightarrow> string option \<Rightarrow> int option" where
  "decodeJwtExp pf token =
     (case token of
        None \<Rightarrow> None
      | Some t \<Rightarrow>
          if t = [] then None
          else (case jwtExpClaim pf t of None \<Rightarrow> None | Some e \<Rightarrow> Some (e * 1000)))"

definition clearTimer :: "timer_handle option \<Rightarrow> tab \<Rightarrow> tab" where
  "clearTimer timerId st =
     (case timerId of
        None \<Rightarrow> st
      | Some h \<Rightarrow> st\<lparr>timeouts := filter (\<lambda>armed. fst armed \<noteq> h) (timeouts st)\<rparr>)"

definition scheduleAccessExpiryWatcher :: "platform \<Rightarrow> tab \<Rightarrow> tab" where
  "scheduleAccessExpiryWatcher pf st =
     (let st1 = clearTimer (accessExpiryTimer st) st in
      case decodeJwtExp pf (accessTokenMemory st1) of
        None \<Rightarrow> st1
      | Some accessExpMs \<Rightarrow>
          if accessExpMs = 0 then st1
          else
            (let delay = max 0 (accessExpMs - dateNow pf);
                 h = Timer (nextTimer st1)
             in st1\<lparr>timeouts := timeouts st1 @ [(h, delay)],
                    nextTimer := Suc (nextTimer st1),
                    accessExpiryTimer := Some h\<rparr>))"

definition getAccessToken :: "tab \<Rightarrow> string option" where
  "getAccessToken st = accessTokenMemory st"

definition setAccessToken :: "platform \<Rightarrow> string option \<Rightarrow> tab \<Rightarrow> tab" where
  "setAccessToken pf token st =
     scheduleAccessExpiryWatcher pf (st\<lparr>accessTokenMemory := token\<rparr>)"

definition getStoredUser :: "tab \<Rightarrow> StoredUser option" where
  "getStoredUser st = localStorage_user st"

definition setStoredUser :: "StoredUser option \<Rightarrow> tab \<Rightarrow> tab" where
  "setStoredUser user st = st\<lparr>localStorage_user := user\<rparr>"

definition persistLoginInfo :: "platform \<Rightarrow> StoredUser \<Rightarrow> string \<Rightarrow> tab \<Rightarrow> tab" where
  "persistLoginInfo pf user accessToken st =
     broadcastAuthChange (Login user accessToken)
       (setAccessToken pf (Some accessToken) (setStoredUser (Some user) st))"

definition clearLocalAuth :: "tab \<Rightarrow> tab" where
  "clearLocalAuth st =
     (let st1 = st\<lparr>accessTokenMemory := None\<rparr>;
          st2 = st1\<lparr>localStorage_user := None\<rparr>;
          st3 = clearTimer (accessExpiryTimer st2) st2
      in st3\<lparr>accessExpiryTimer := None\<rparr>)"

definition clearAllAuth :: "tab \<Rightarrow> tab" where
  "clearAllAuth st = broadcastAuthChange Logout (clearLocalAuth st)"

definition initAuthWatchers :: "platform \<Rightarrow> tab \<Rightarrow> tab" where
  "initAuthWatchers pf st = initBroadcastChannel pf (scheduleAccessExpiryWatcher pf st)"

section \<open>The auth provider's broadcast handler (context/AuthContext.tsx)\<close>

definition setUserState :: "StoredUser option \<Rightarrow> tab \<Rightarrow> tab" where
  "setUserState user st = st\<lparr>userState := user\<rparr>"

definition queryClient_clear :: "tab \<Rightarrow> tab" where
  "queryClient_clear st = st\<lparr>queryClientClears := Suc (queryClientClears st)\<rparr>"

definition handleAuthBroadcast :: "platform \<Rightarrow> AuthBroadcastMessage \<Rightarrow> tab \<Rightarrow> tab" where
  "handleAuthBroadcast pf msg st =
     (case msg of
        Logout \<Rightarrow> queryClient_clear (setUserState None (clearLocalAuth st))
      | Login user accessToken \<Rightarrow>
          setAccessToken pf (Some accessToken) (setUserState (Some user) st))"


section \<open>The HTTP client and its interceptors (lib/api/client.ts)\<close>

text \<open>\<open>String.prototype.includes\<close>: the argument occurs as a contiguous run.\<close>

fun startsWith :: "string \<Rightarrow> string \<Rightarrow> bool" where
  "startsWith s [] = True"
| "startsWith [] (c # cs) = False"
| "startsWith (d # ds) (c # cs) = (d = c \<and> startsWith ds cs)"

fun str_includes :: "string \<Rightarrow> string \<Rightarrow> bool" where
  "str_includes [] sub = (sub = [])"
| "str_includes (d # ds) sub = (startsWith (d # ds) sub \<or> str_includes ds sub)"

definition bearer :: "string \<Rightarrow> string" where
  "bearer token = ''Bearer '' @ token"

text \<open>
  The request interceptor: a truthy access token (present and not the empty string)
  overwrites the Authorization header; otherwise the configuration passes unchanged.
\<close>

definition request_interceptor :: "tab \<Rightarrow> request_config \<Rightarrow> request_config" where
  "request_interceptor st cfg =
     (case getAccessToken st of
        None \<Rightarrow> cfg
      | Some accessToken \<Rightarrow>
          if accessToken = [] then cfg
          else cfg\<lparr>authorization := Some (bearer accessToken)\<rparr>)"

text \<open>
  A call of \<open>apiClient\<close>: the configuration runs through the request interceptor and goes
  to the network. The interceptor reads the token holder as it is when \<open>apiClient\<close> is
  called.
\<close>

definition apiClient :: "request_config \<Rightarrow> tab \<Rightarrow> tab" where
  "apiClient cfg st = st\<lparr>sent := sent st @ [request_interceptor st cfg]\<rparr>"

definition refreshRequest :: request_config where
  "refreshRequest =
     \<lparr>url = Some ''/api/auth/refresh'', authorization = None, retry = False,
      payload = ''{}''\<rparr>"

definition performTokenRefresh :: "tab \<Rightarrow> tab" where
  "performTokenRefresh st = apiClient refreshRequest st"

text \<open>
  A queued continuation closes over its request; called with the new token it sets the
  header, resubmits the request and resolves its promise with the resubmission.
\<close>

definition resumePending :: "string \<Rightarrow> request_config \<Rightarrow> tab \<Rightarrow> tab" where
  "resumePending token originalRequest st =
     (let req = originalRequest\<lparr>authorization := Some (bearer token)\<rparr>;
          st1 = apiClient req st
      in st1\<lparr>settled := settled st1 @ [(Some originalRequest, ResolvedWithRetry req)]\<rparr>)"

definition onRefreshed :: "string \<Rightarrow> tab \<Rightarrow> tab" where
  "onRefreshed token st =
     (fold (resumePending token) (pendingRequests st) st)\<lparr>pendingRequests := []\<rparr>"

definition isAuthEndpoint :: "string \<Rightarrow> bool" where
  "isAuthEndpoint u =
     (str_includes u ''/api/auth/refresh'' \<or>
      str_includes u ''/api/auth/logout'' \<or>
      str_includes u ''/api/auth/google'')"

definition requestUrl :: "request_config option \<Rightarrow> string" where
  "requestUrl originalRequest =
     (case originalRequest of
        None \<Rightarrow> []
      | Some c \<Rightarrow> (case url c of None \<Rightarrow> [] | Some u \<Rightarrow> u))"

definition alreadyRetried :: "request_config option \<Rightarrow> bool" where
  "alreadyRetried originalRequest =
     (case originalRequest of None \<Rightarrow> False | Some c \<Rightarrow> retry c)"

text \<open>
  The error handler of the response interceptor, up to its first suspension: it rejects,
  queues a continuation, or issues the refresh call and suspends on it.
\<close>

definition responseError :: "axios_error \<Rightarrow> tab \<Rightarrow> tab" where
  "responseError err st =
     (let originalRequest = config err;
          u = requestUrl originalRequest
      in if response_status err = Some 401 \<and> \<not> alreadyRetried originalRequest
            \<and> \<not> isAuthEndpoint u
         then
           (case originalRequest of
              None \<Rightarrow> st\<lparr>settled := settled st @ [(None, ThrewTypeError)]\<rparr>
            | Some c \<Rightarrow>
                (let req = c\<lparr>retry := True\<rparr> in
                 if isRefreshing st
                 then st\<lparr>pendingRequests := pendingRequests st @ [req]\<rparr>
                 else
                   (let st1 = performTokenRefresh (st\<lparr>isRefreshing := True\<rparr>)
                    in st1\<lparr>refreshers := refreshers st1 @ [req]\<rparr>)))
         else st\<lparr>settled := settled st @ [(originalRequest, RejectedWith err)]\<rparr>)"

text \<open>
  The rest of the \<open>try\<close> block, run when the refresh call resolves with a new token,
  followed by the \<open>finally\<close> block.
\<close>

definition refreshResolved :: "platform \<Rightarrow> string \<Rightarrow> tab \<Rightarrow> tab" where
  "refreshResolved pf accessToken st =
     (case refreshers st of
        [] \<Rightarrow> st
      | originalRequest # others \<Rightarrow>
          (let st1 = setAccessToken pf (Some accessToken) (st\<lparr>refreshers := others\<rparr>);
               st2 = onRefreshed accessToken st1;
               req = originalRequest\<lparr>authorization := Some (bearer accessToken)\<rparr>;
               st3 = apiClient req st2;
               st4 = st3\<lparr>settled := settled st3 @ [(Some originalRequest, ResolvedWithRetry req)]\<rparr>
           in st4\<lparr>isRefreshing := False\<rparr>))"

text \<open>
  The \<open>catch\<close> block, run when the refresh call rejects, followed by the \<open>finally\<close>
  block.
\<close>

definition refreshRejected :: "axios_error \<Rightarrow> tab \<Rightarrow> tab" where
  "refreshRejected e st =
     (case refreshers st of
        [] \<Rightarrow> st
      | originalRequest # others \<Rightarrow>
          (let st1 = clearAllAuth (st\<lparr>refreshers := others\<rparr>);
               st2 = (if pathname st1 \<noteq> ''/login''
                      then st1\<lparr>navigations := navigations st1 @ [''/login'']\<rparr>
                      else st1);
               st3 = st2\<lparr>settled := settled st2 @ [(Some originalRequest, RejectedWith e)]\<rparr>
           in st3\<lparr>isRefreshing := False\<rparr>))"

section \<open>The auth provider's mount effect (context/AuthContext.tsx, lib/api/auth.api.ts)\<close>

text \<open>
  \<open>rotateTokens\<close> posts the same request as \<open>performTokenRefresh\<close>, through the same
  client, and reads no flag of the interceptor.
\<close>

definition rotateTokens :: "tab \<Rightarrow> tab" where
  "rotateTokens st = apiClient refreshRequest st"

definition setBootstrapped :: "bool \<Rightarrow> tab \<Rightarrow> tab" where
  "setBootstrapped b st = st\<lparr>bootstrapped := b\<rparr>"

text \<open>
  \<open>attemptRefresh\<close> up to its suspension: without a stored user it only marks the
  provider bootstrapped; with one it issues the refresh call and suspends on it.
\<close>

definition attemptRefresh :: "tab \<Rightarrow> tab" where
  "attemptRefresh st =
     (case getStoredUser st of
        None \<Rightarrow> setBootstrapped True st
      | Some storedUser \<Rightarrow>
          (let st1 = rotateTokens st in st1\<lparr>bootRefreshes := Suc (bootRefreshes st1)\<rparr>))"

text \<open>
  The rest of \<open>attemptRefresh\<close>, when its refresh call resolves and when it rejects. The
  provider wraps the application and stays mounted, so the \<open>mounted\<close> guard of the
  effect holds when the call settles.
\<close>

definition attemptRefresh_resolved :: "platform \<Rightarrow> string \<Rightarrow> tab \<Rightarrow> tab" where
  "attemptRefresh_resolved pf accessToken st =
     (if bootRefreshes st = 0 then st
      else setBootstrapped True
             (setAccessToken pf (Some accessToken) (st\<lparr>bootRefreshes := bootRefreshes st - 1\<rparr>)))"

definition attemptRefresh_rejected :: "axios_error \<Rightarrow> tab \<Rightarrow> tab" where
  "attemptRefresh_rejected e st =
     (if bootRefreshes st = 0 then st
      else setBootstrapped True
             (setUserState None (clearAllAuth (st\<lparr>bootRefreshes := bootRefreshes st - 1\<rparr>))))"

definition setupAuthBroadcastListener :: "platform \<Rightarrow> tab \<Rightarrow> tab" where
  "setupAuthBroadcastListener pf st = initBroadcastChannel pf st"

text \<open>
  The effect the provider runs when it mounts: the watchers, the refresh attempt, the
  listener on the channel. Its listener for storage events, which only copies the stored
  user into the provider's user, is left out.
\<close>

definition providerMountEffect :: "platform \<Rightarrow> tab \<Rightarrow> tab" where
  "providerMountEffect pf st =
     setupAuthBroadcastListener pf (attemptRefresh (initAuthWatchers pf st))"


section \<open>The events of a tab\<close>

text \<open>
  What can happen in a tab, one task of the event loop each: a response fails and reaches
  the error handler, the refresh call of the interceptor settles, the auth provider
  mounts, the refresh call of the provider settles, a login is persisted, or a message of
  another tab arrives on the channel (which has a listener only when the channel exists).
\<close>

datatype event =
    ResponseError axios_error
  | RefreshResolved string
  | RefreshRejected axios_error
  | ProviderMounted
  | BootRefreshResolved string
  | BootRefreshRejected axios_error
  | LoginPersisted StoredUser string
  | Broadcast AuthBroadcastMessage

fun step :: "platform \<Rightarrow> event \<Rightarrow> tab \<Rightarrow> tab" where
  "step pf (ResponseError err) st = responseError err st"
| "step pf (RefreshResolved accessToken) st = refreshResolved pf accessToken st"
| "step pf (RefreshRejected e) st = refreshRejected e st"
| "step pf ProviderMounted st = providerMountEffect pf st"
| "step pf (BootRefreshResolved accessToken) st = attemptRefresh_resolved pf accessToken st"
| "step pf (BootRefreshRejected e) st = attemptRefresh_rejected e st"
| "step pf (LoginPersisted user accessToken) st = persistLoginInfo pf user accessToken st"
| "step pf (Broadcast msg) st =
     (if authChannel st then handleAuthBroadcast pf msg st else st)"

definition run :: "platform \<Rightarrow> event list \<Rightarrow> tab \<Rightarrow> tab" where
  "run pf evs st = fold (step pf) evs st"

text \<open>The tab as the modules leave it when they are loaded at \<open>path\<close>.\<close>

definition freshTab :: "string \<Rightarrow> StoredUser option \<Rightarrow> tab" where
  "freshTab path stored =
     \<lparr>accessTokenMemory = None, accessExpiryTimer = None, authChannel = False,
      localStorage_user = stored, timeouts = [], nextTimer = 0, posted = [],
      pathname = path, navigations = [], userState = stored, bootstrapped = False,
      bootRefreshes = 0, queryClientClears = 0,
      isRefreshing = False, pendingRequests = [], refreshers = [], sent = [],
      settled = []\<rparr>"


text \<open>
  A failure the interceptor answers with a refresh: status 401, a request that was not
  retried yet, and a url that is none of the auth endpoints.
\<close>

definition retriable401 :: "axios_error \<Rightarrow> bool" where
  "retriable401 err =
     (response_status err = Some 401 \<and> config err \<noteq> None
      \<and> \<not> alreadyRetried (config err) \<and> \<not> isAuthEndpoint (requestUrl (config err)))"

definition markRetried :: "request_config \<Rightarrow> request_config" where
  "markRetried c = c\<lparr>retry := True\<rparr>"

definition withBearer :: "string \<Rightarrow> request_config \<Rightarrow> request_config" where
  "withBearer token c = c\<lparr>authorization := Some (bearer token)\<rparr>"

definition isRefreshCall :: "request_config \<Rightarrow> bool" where
  "isRefreshCall c = (url c = Some ''/api/auth/refresh'')"

definition refreshCalls :: "tab \<Rightarrow> nat" where
  "refreshCalls st = length (filter isRefreshCall (sent st))"

text \<open>The refresh calls in flight: those of the interceptor and those of the provider.\<close>

definition refreshCallsInFlight :: "tab \<Rightarrow> nat" where
  "refreshCallsInFlight st = length (refreshers st) + bootRefreshes st"

definition clientInvariant :: "tab \<Rightarrow> bool" where
  "clientInvariant st =
     (length (refreshers st) \<le> 1 \<and> isRefreshing st = (refreshers st \<noteq> [])
      \<and> list_all (\<lambda>c. retry c \<and> \<not> isAuthEndpoint (requestUrl (Some c))) (pendingRequests st))"

section \<open>The cache manager over the persistent local store (lib/db/emailCache)\<close>

text \<open>
  The payloads are opaque to the cache and to the facade: a mailbox, an item of an email
  list, the metadata of a page and the detail of an email are passed through unchanged.
\<close>

type_synonym mailbox = string
type_synonym email_item = string
type_synonym page_meta = string
type_synonym email_detail = string

record ('d, 'm) cache_entry =
  data :: 'd
  meta :: 'm
  fetchedAt :: nat

text \<open>
  Modelled from the spec: the persistent local store, whose module lib/db/emailCache is not
  among the sources. Section 3 gives it one entry for the mailbox list, one per mailbox id
  and page token (or first page) for email lists, and one per email id for details, each
  holding a payload and the instant it was fetched. The key of a list page is taken as the
  pair itself, so two different pairs never share an entry. Persistence failures, which
  section 4.4 says degrade to a miss and never fail the caller, are outside the model:
  every operation below is on a working store.
\<close>

record email_cache =
  mailboxesEntry :: "(mailbox list, unit) cache_entry option"
  emailListEntries :: "string \<times> string option \<Rightarrow> (email_item list, page_meta) cache_entry option"
  emailEntries :: "string \<Rightarrow> (email_detail, unit) cache_entry option"

text \<open>
  Modelled from the spec: \<open>getMailboxes()\<close> of section 4.4, imported by the facade as
  \<open>getCachedMailboxes\<close>; a miss is the absent value, never an error.
\<close>

definition getCachedMailboxes :: "email_cache \<Rightarrow> (mailbox list, unit) cache_entry option" where
  "getCachedMailboxes db = mailboxesEntry db"

text \<open>
  Modelled from the spec: \<open>putMailboxes(list)\<close> of section 4.4, imported as
  \<open>cacheMailboxes\<close>; the write replaces the entry wholesale.
\<close>

definition cacheMailboxes :: "nat \<Rightarrow> mailbox list \<Rightarrow> email_cache \<Rightarrow> email_cache" where
  "cacheMailboxes now list db =
     db\<lparr>mailboxesEntry := Some \<lparr>data = list, meta = (), fetchedAt = now\<rparr>\<rparr>"

text \<open>
  Modelled from the spec: \<open>getEmailList(mailboxId, pageToken)\<close> of section 4.4,
  imported as \<open>getCachedEmailList\<close>.
\<close>

definition getCachedEmailList ::
  "string \<Rightarrow> string option \<Rightarrow> email_cache \<Rightarrow> (email_item list, page_meta) cache_entry option" where
  "getCachedEmailList mailboxId pageToken db = emailListEntries db (mailboxId, pageToken)"

text \<open>
  Modelled from the spec: \<open>putEmailList(mailboxId, pageToken, items, meta)\<close> of section
  4.4, imported as \<open>cacheEmailList\<close>.
\<close>

definition cacheEmailList ::
  "nat \<Rightarrow> string \<Rightarrow> string option \<Rightarrow> email_item list \<Rightarrow> page_meta \<Rightarrow> email_cache \<Rightarrow> email_cache" where
  "cacheEmailList now mailboxId pageToken items m db =
     db\<lparr>emailListEntries :=
          (emailListEntries db)((mailboxId, pageToken) := Some \<lparr>data = items, meta = m, fetchedAt = now\<rparr>)\<rparr>"

text \<open>
  Modelled from the spec: \<open>getEmailDetail(id)\<close> of section 4.4, imported as
  \<open>getCachedEmail\<close>.
\<close>

definition getCachedEmail :: "string \<Rightarrow> email_cache \<Rightarrow> (email_detail, unit) cache_entry option" where
  "getCachedEmail emailId db = emailEntries db emailId"

text \<open>
  Modelled from the spec: \<open>putEmailDetail(id, detail)\<close> of section 4.4, imported as
  \<open>cacheEmail\<close>.
\<close>

definition cacheEmail :: "nat \<Rightarrow> string \<Rightarrow> email_detail \<Rightarrow> email_cache \<Rightarrow> email_cache" where
  "cacheEmail now emailId detail db =
     db\<lparr>emailEntries := (emailEntries db)(emailId := Some \<lparr>data = detail, meta = (), fetchedAt = now\<rparr>)\<rparr>"

text \<open>Modelled from the spec: \<open>invalidateEmail(id)\<close> of section 4.4.\<close>

definition invalidateEmail :: "string \<Rightarrow> email_cache \<Rightarrow> email_cache" where
  "invalidateEmail emailId db = db\<lparr>emailEntries := (emailEntries db)(emailId := None)\<rparr>"

text \<open>
  Modelled from the spec: \<open>invalidateAllListsForMailbox()\<close> of section 4.4, imported as
  \<open>invalidateAllEmailListsForMailbox\<close>; by section 4.6 it drops every email-list page.
\<close>

definition invalidateAllEmailListsForMailbox :: "email_cache \<Rightarrow> email_cache" where
  "invalidateAllEmailListsForMailbox db = db\<lparr>emailListEntries := (\<lambda>k. None)\<rparr>"

text \<open>Modelled from the spec: \<open>invalidateMailboxes()\<close> of section 4.4.\<close>

definition invalidateMailboxes :: "email_cache \<Rightarrow> email_cache" where
  "invalidateMailboxes db = db\<lparr>mailboxesEntry := None\<rparr>"

section \<open>The stale-while-revalidate facade (lib/api/gmail.cached.api)\<close>

text \<open>
  The envelopes of the remote API. A call of the base API settles later, with a response
  or with an error; the facade never sees more of it than that.
\<close>

record 'd api_response =
  status :: string
  response_data :: 'd

record mailboxes_data =
  mailboxes :: "mailbox list"

record emails_data =
  emails :: "email_item list"
  emails_meta :: page_meta

datatype 'a promise_result = Fulfilled 'a | Failed axios_error

datatype live_call =
    GetMailboxes
  | GetMailboxEmailsInfinite string "string option" nat
  | GetEmailDetail string

text \<open>
  Where a read of the facade stands when it has run as far as it can without the network:
  it has returned a response to its caller and left a live call running detached
  (\<open>Served\<close>), or it is suspended on a live call, holding on to what it read from the cache
  (\<open>AwaitLive\<close>). What \<open>Served\<close> returns is computed before the live call settles.
\<close>

datatype ('r, 'k) facade_step =
    Served 'r live_call
  | AwaitLive live_call 'k

definition getMailboxesCached :: "email_cache \<Rightarrow> (mailboxes_data api_response, unit) facade_step" where
  "getMailboxesCached db =
     (case getCachedMailboxes db of
        Some cached \<Rightarrow>
          Served \<lparr>status = ''success'', response_data = \<lparr>mailboxes = data cached\<rparr>\<rparr> GetMailboxes
      | None \<Rightarrow> AwaitLive GetMailboxes ())"

text \<open>
  The detached \<open>then\<close>/\<open>catch\<close> chain of the background fetch, run on the store as it is
  when the live call settles: the new store and what was written to the console.
\<close>

definition getMailboxesCached_background ::
  "nat \<Rightarrow> mailboxes_data api_response promise_result \<Rightarrow> email_cache \<Rightarrow> email_cache \<times> string list" where
  "getMailboxesCached_background now live db =
     (case live of
        Fulfilled response \<Rightarrow> (cacheMailboxes now (mailboxes (response_data response)) db, [])
      | Failed err \<Rightarrow> (db, [''Background mailbox fetch failed: '' @ message err]))"

text \<open>The awaited path: the new store, and what the caller gets (\<open>Inl\<close> is a throw).\<close>

definition getMailboxesCached_live ::
  "nat \<Rightarrow> mailboxes_data api_response promise_result \<Rightarrow> email_cache
     \<Rightarrow> email_cache \<times> (axios_error + mailboxes_data api_response)" where
  "getMailboxesCached_live now live db =
     (case live of
        Fulfilled response \<Rightarrow>
          (cacheMailboxes now (mailboxes (response_data response)) db, Inr response)
      | Failed err \<Rightarrow> (db, Inl err))"



definition getMailboxEmailsInfiniteCached_background ::
  "nat \<Rightarrow> string \<Rightarrow> string option \<Rightarrow> emails_data api_response promise_result \<Rightarrow> email_cache
     \<Rightarrow> email_cache \<times> string list" where
  "getMailboxEmailsInfiniteCached_background now mailboxId pageToken live db =
     (case live of
        Fulfilled response \<Rightarrow>
          (cacheEmailList now mailboxId pageToken (emails (response_data response))
             (emails_meta (response_data response)) db, [])
      | Failed err \<Rightarrow> (db, [''Background email fetch failed: '' @ message err]))"



definition mailboxesReadOutcome ::
  "nat \<Rightarrow> mailboxes_data api_response promise_result option \<Rightarrow> email_cache \<Rightarrow> email_cache
     \<Rightarrow> (axios_error + mailboxes_data api_response) option" where
  "mailboxesReadOutcome now live db dbThen =
     (case getMailboxesCached db of
        Served response call \<Rightarrow> Some (Inr response)
      | AwaitLive call k \<Rightarrow>
          (case live of
             None \<Rightarrow> None
           | Some settledLive \<Rightarrow> Some (snd (getMailboxesCached_live now settledLive dbThen))))"

section \<open>The push handler of the inbox page (pages/InboxPage.tsx)\<close>

text \<open>
  The handler is a sequence of effects on the page: the two store invalidations, started
  together and awaited together, then the three invalidations of the query cache, which
  are the refetch signals. \<open>Promise.all\<close> fixes neither which of the two invalidations
  completes first, so the handler takes that as a parameter.
\<close>

type_synonym GmailNotification = string

datatype push_action =
    InvalidateAllEmailLists
  | InvalidateMailboxes
  | InvalidateQueries string

record inbox_page =
  cache :: email_cache
  invalidatedQueries :: "string list"

fun perform :: "push_action \<Rightarrow> inbox_page \<Rightarrow> inbox_page" where
  "perform InvalidateAllEmailLists pg = pg\<lparr>cache := invalidateAllEmailListsForMailbox (cache pg)\<rparr>"
| "perform InvalidateMailboxes pg = pg\<lparr>cache := invalidateMailboxes (cache pg)\<rparr>"
| "perform (InvalidateQueries queryKey) pg =
     pg\<lparr>invalidatedQueries := invalidatedQueries pg @ [queryKey]\<rparr>"

definition handleGmailNotification :: "GmailNotification \<Rightarrow> bool \<Rightarrow> push_action list" where
  "handleGmailNotification notification listsFirst =
     (if listsFirst then [InvalidateAllEmailLists, InvalidateMailboxes]
      else [InvalidateMailboxes, InvalidateAllEmailLists])
     @ [InvalidateQueries ''emails'', InvalidateQueries ''mailboxes'',
        InvalidateQueries ''kanban-emails'']"

definition isStoreInvalidation :: "push_action \<Rightarrow> bool" where
  "isStoreInvalidation a = (a = InvalidateAllEmailLists \<or> a = InvalidateMailboxes)"

section \<open>Concrete inputs\<close>

text \<open>
  A browser with \<open>BroadcastChannel\<close> whose tokens carry no readable expiry, a user, the
  401 failure of a request for a url, and a tab in which the provider has mounted, a login
  with token \<open>t1\<close> was persisted and a request for the mailboxes has come back with 401.
  \<open>reloadedTab\<close> is a tab loaded with a stored user, in which the provider has mounted
  and a request for the mailboxes has come back with 401. \<open>receivingTab\<close> is a second
  tab of the origin, loaded at the login page before \<open>loggedInTab\<close> persisted its login.
\<close>

definition examplePlatform :: platform where
  "examplePlatform = \<lparr>jwtExpClaim = (\<lambda>t. None), dateNow = 0, hasBroadcastChannel = True\<rparr>"

definition exampleUser :: StoredUser where
  "exampleUser =
     \<lparr>user_id = ''u1'', email = ''ann@example.org'', name = None, avatarUrl = None,
      googleId = None\<rparr>"

definition requestFor :: "string \<Rightarrow> request_config" where
  "requestFor u = \<lparr>url = Some u, authorization = None, retry = False, payload = []\<rparr>"

definition unauthorized :: "request_config \<Rightarrow> axios_error" where
  "unauthorized c =
     \<lparr>config = Some c, response_status = Some 401,
      message = ''Request failed with status code 401''\<rparr>"

definition networkError :: "request_config \<Rightarrow> axios_error" where
  "networkError c = \<lparr>config = Some c, response_status = None, message = ''Network Error''\<rparr>"

definition loggedInTab :: tab where
  "loggedInTab =
     run examplePlatform [ProviderMounted, LoginPersisted exampleUser ''t1'']
       (freshTab ''/inbox'' None)"

definition reloadedTab :: tab where
  "reloadedTab =
     run examplePlatform
       [ProviderMounted, ResponseError (unauthorized (requestFor ''/api/mailboxes''))]
       (freshTab ''/inbox'' (Some exampleUser))"


definition refreshingTab :: tab where
  "refreshingTab =
     run examplePlatform
       [ResponseError (unauthorized ((requestFor ''/api/mailboxes'')\<lparr>authorization := Some ''Bearer t1''\<rparr>))]
       loggedInTab"

text \<open>
  A store that holds nothing, and one that holds the mailbox list and the second page of
  the inbox, both fetched at instant 5.
\<close>

definition emptyCache :: email_cache where
  "emptyCache =
     \<lparr>mailboxesEntry = None, emailListEntries = (\<lambda>k. None), emailEntries = (\<lambda>k. None)\<rparr>"

definition warmCache :: email_cache where
  "warmCache =
     cacheEmailList 5 ''INBOX'' (Some ''p2'') [''m21'', ''m22''] ''next=p3''
       (cacheMailboxes 5 [''INBOX'', ''SENT''] emptyCache)"

section \<open>Properties of the access token holder and the client\<close>

lemma startsWith_prefix: "startsWith s sub = prefix sub s"
  by (induction s sub rule: startsWith.induct) auto

lemma str_includes_sublist: "str_includes s sub = sublist sub s"
  by (induction s) (auto simp: startsWith_prefix sublist_Cons_right)

lemma str_includes_self: "str_includes s s"
  by (simp add: str_includes_sublist)


lemma request_interceptor_withBearer:
  "accessTokenMemory st = Some tok \<Longrightarrow> request_interceptor st (withBearer tok c) = withBearer tok c"
  by (simp add: request_interceptor_def getAccessToken_def withBearer_def)

lemma resumePending_eq:
  "resumePending tok r st =
     st\<lparr>sent := sent st @ [request_interceptor st (withBearer tok r)],
        settled := settled st @ [(Some r, ResolvedWithRetry (withBearer tok r))]\<rparr>"
  by (simp add: resumePending_def apiClient_def withBearer_def Let_def)

lemma fold_resumePending:
  "fold (resumePending tok) rs st =
     st\<lparr>sent := sent st @ map (\<lambda>c. request_interceptor st (withBearer tok c)) rs,
        settled := settled st @ map (\<lambda>c. (Some c, ResolvedWithRetry (withBearer tok c))) rs\<rparr>"
proof (induction rs arbitrary: st)
  case Nil
  show ?case by simp
next
  case (Cons r rs)
  have same: "request_interceptor (resumePending tok r st) = request_interceptor st"
    by (rule ext) (simp add: resumePending_eq request_interceptor_def getAccessToken_def)
  show ?case
    by (simp add: Cons.IH same) (simp add: resumePending_eq)
qed

lemma onRefreshed_eq:
  "onRefreshed tok st =
     st\<lparr>sent := sent st @ map (\<lambda>c. request_interceptor st (withBearer tok c)) (pendingRequests st),
        settled := settled st @ map (\<lambda>c. (Some c, ResolvedWithRetry (withBearer tok c))) (pendingRequests st),
        pendingRequests := []\<rparr>"
  by (simp add: onRefreshed_def fold_resumePending)


lemma clearTimer_frame:
  "accessTokenMemory (clearTimer h st) = accessTokenMemory st"
  "accessExpiryTimer (clearTimer h st) = accessExpiryTimer st"
  "authChannel (clearTimer h st) = authChannel st"
  "localStorage_user (clearTimer h st) = localStorage_user st"
  "posted (clearTimer h st) = posted st"
  "pathname (clearTimer h st) = pathname st"
  "navigations (clearTimer h st) = navigations st"
  "userState (clearTimer h st) = userState st"
  "queryClientClears (clearTimer h st) = queryClientClears st"
  "bootstrapped (clearTimer h st) = bootstrapped st"
  "bootRefreshes (clearTimer h st) = bootRefreshes st"
  "isRefreshing (clearTimer h st) = isRefreshing st"
  "pendingRequests (clearTimer h st) = pendingRequests st"
  "refreshers (clearTimer h st) = refreshers st"
  "sent (clearTimer h st) = sent st"
  "settled (clearTimer h st) = settled st"
  by (simp_all add: clearTimer_def split: option.split)

lemma scheduleAccessExpiryWatcher_frame:
  "accessTokenMemory (scheduleAccessExpiryWatcher pf st) = accessTokenMemory st"
  "authChannel (scheduleAccessExpiryWatcher pf st) = authChannel st"
  "localStorage_user (scheduleAccessExpiryWatcher pf st) = localStorage_user st"
  "posted (scheduleAccessExpiryWatcher pf st) = posted st"
  "pathname (scheduleAccessExpiryWatcher pf st) = pathname st"
  "navigations (scheduleAccessExpiryWatcher pf st) = navigations st"
  "userState (scheduleAccessExpiryWatcher pf st) = userState st"
  "queryClientClears (scheduleAccessExpiryWatcher pf st) = queryClientClears st"
  "bootstrapped (scheduleAccessExpiryWatcher pf st) = bootstrapped st"
  "bootRefreshes (scheduleAccessExpiryWatcher pf st) = bootRefreshes st"
  "isRefreshing (scheduleAccessExpiryWatcher pf st) = isRefreshing st"
  "pendingRequests (scheduleAccessExpiryWatcher pf st) = pendingRequests st"
  "refreshers (scheduleAccessExpiryWatcher pf st) = refreshers st"
  "sent (scheduleAccessExpiryWatcher pf st) = sent st"
  "settled (scheduleAccessExpiryWatcher pf st) = settled st"
  by (simp_all add: scheduleAccessExpiryWatcher_def Let_def clearTimer_frame split: option.split)

lemma setAccessToken_frame:
  "accessTokenMemory (setAccessToken pf t st) = t"
  "authChannel (setAccessToken pf t st) = authChannel st"
  "localStorage_user (setAccessToken pf t st) = localStorage_user st"
  "posted (setAccessToken pf t st) = posted st"
  "pathname (setAccessToken pf t st) = pathname st"
  "navigations (setAccessToken pf t st) = navigations st"
  "userState (setAccessToken pf t st) = userState st"
  "queryClientClears (setAccessToken pf t st) = queryClientClears st"
  "bootstrapped (setAccessToken pf t st) = bootstrapped st"
  "bootRefreshes (setAccessToken pf t st) = bootRefreshes st"
  "isRefreshing (setAccessToken pf t st) = isRefreshing st"
  "pendingRequests (setAccessToken pf t st) = pendingRequests st"
  "refreshers (setAccessToken pf t st) = refreshers st"
  "sent (setAccessToken pf t st) = sent st"
  "settled (setAccessToken pf t st) = settled st"
  by (simp_all add: setAccessToken_def scheduleAccessExpiryWatcher_frame)

lemma clearLocalAuth_frame:
  "accessTokenMemory (clearLocalAuth st) = None"
  "accessExpiryTimer (clearLocalAuth st) = None"
  "localStorage_user (clearLocalAuth st) = None"
  "authChannel (clearLocalAuth st) = authChannel st"
  "posted (clearLocalAuth st) = posted st"
  "pathname (clearLocalAuth st) = pathname st"
  "navigations (clearLocalAuth st) = navigations st"
  "userState (clearLocalAuth st) = userState st"
  "queryClientClears (clearLocalAuth st) = queryClientClears st"
  "bootstrapped (clearLocalAuth st) = bootstrapped st"
  "bootRefreshes (clearLocalAuth st) = bootRefreshes st"
  "isRefreshing (clearLocalAuth st) = isRefreshing st"
  "pendingRequests (clearLocalAuth st) = pendingRequests st"
  "refreshers (clearLocalAuth st) = refreshers st"
  "sent (clearLocalAuth st) = sent st"
  "settled (clearLocalAuth st) = settled st"
  by (simp_all add: clearLocalAuth_def Let_def clearTimer_frame)

lemma clearLocalAuth_timeouts:
  "timeouts (clearLocalAuth st) =
     (case accessExpiryTimer st of
        None \<Rightarrow> timeouts st
      | Some h \<Rightarrow> filter (\<lambda>armed. fst armed \<noteq> h) (timeouts st))"
  by (simp add: clearLocalAuth_def Let_def clearTimer_def split: option.split)

lemma clearAllAuth_frame:
  "accessTokenMemory (clearAllAuth st) = None"
  "accessExpiryTimer (clearAllAuth st) = None"
  "localStorage_user (clearAllAuth st) = None"
  "authChannel (clearAllAuth st) = authChannel st"
  "posted (clearAllAuth st) = posted st @ (if authChannel st then [Logout] else [])"
  "pathname (clearAllAuth st) = pathname st"
  "navigations (clearAllAuth st) = navigations st"
  "userState (clearAllAuth st) = userState st"
  "queryClientClears (clearAllAuth st) = queryClientClears st"
  "bootstrapped (clearAllAuth st) = bootstrapped st"
  "bootRefreshes (clearAllAuth st) = bootRefreshes st"
  "isRefreshing (clearAllAuth st) = isRefreshing st"
  "pendingRequests (clearAllAuth st) = pendingRequests st"
  "refreshers (clearAllAuth st) = refreshers st"
  "sent (clearAllAuth st) = sent st"
  "settled (clearAllAuth st) = settled st"
  "timeouts (clearAllAuth st) = timeouts (clearLocalAuth st)"
  by (simp_all add: clearAllAuth_def broadcastAuthChange_def clearLocalAuth_frame)

lemma handleAuthBroadcast_client:
  "isRefreshing (handleAuthBroadcast pf m st) = isRefreshing st"
  "pendingRequests (handleAuthBroadcast pf m st) = pendingRequests st"
  "refreshers (handleAuthBroadcast pf m st) = refreshers st"
  "sent (handleAuthBroadcast pf m st) = sent st"
  "settled (handleAuthBroadcast pf m st) = settled st"
  by (simp_all add: handleAuthBroadcast_def queryClient_clear_def setUserState_def
        clearLocalAuth_frame setAccessToken_frame split: AuthBroadcastMessage.split)

lemma persistLoginInfo_client:
  "isRefreshing (persistLoginInfo pf u t st) = isRefreshing st"
  "pendingRequests (persistLoginInfo pf u t st) = pendingRequests st"
  "refreshers (persistLoginInfo pf u t st) = refreshers st"
  "sent (persistLoginInfo pf u t st) = sent st"
  "settled (persistLoginInfo pf u t st) = settled st"
  by (simp_all add: persistLoginInfo_def broadcastAuthChange_def setStoredUser_def
        setAccessToken_frame)

lemma initAuthWatchers_client:
  "isRefreshing (initAuthWatchers pf st) = isRefreshing st"
  "pendingRequests (initAuthWatchers pf st) = pendingRequests st"
  "refreshers (initAuthWatchers pf st) = refreshers st"
  "sent (initAuthWatchers pf st) = sent st"
  "settled (initAuthWatchers pf st) = settled st"
  by (simp_all add: initAuthWatchers_def initBroadcastChannel_def
        scheduleAccessExpiryWatcher_frame)

lemma providerMountEffect_client:
  "isRefreshing (providerMountEffect pf st) = isRefreshing st"
  "pendingRequests (providerMountEffect pf st) = pendingRequests st"
  "refreshers (providerMountEffect pf st) = refreshers st"
  "settled (providerMountEffect pf st) = settled st"
  by (simp_all add: providerMountEffect_def setupAuthBroadcastListener_def
        initBroadcastChannel_def attemptRefresh_def setBootstrapped_def rotateTokens_def
        apiClient_def Let_def initAuthWatchers_client split: option.split)

lemma attemptRefresh_resolved_client:
  "isRefreshing (attemptRefresh_resolved pf t st) = isRefreshing st"
  "pendingRequests (attemptRefresh_resolved pf t st) = pendingRequests st"
  "refreshers (attemptRefresh_resolved pf t st) = refreshers st"
  "sent (attemptRefresh_resolved pf t st) = sent st"
  "settled (attemptRefresh_resolved pf t st) = settled st"
  by (simp_all add: attemptRefresh_resolved_def setBootstrapped_def setAccessToken_frame)

lemma attemptRefresh_rejected_client:
  "isRefreshing (attemptRefresh_rejected e st) = isRefreshing st"
  "pendingRequests (attemptRefresh_rejected e st) = pendingRequests st"
  "refreshers (attemptRefresh_rejected e st) = refreshers st"
  "sent (attemptRefresh_rejected e st) = sent st"
  "settled (attemptRefresh_rejected e st) = settled st"
  by (simp_all add: attemptRefresh_rejected_def setBootstrapped_def setUserState_def
        clearAllAuth_frame)

lemma clientInvariant_fresh: "clientInvariant (freshTab path stored)"
  by (simp add: clientInvariant_def freshTab_def)

lemma clientInvariant_responseError:
  assumes "clientInvariant st"
  shows "clientInvariant (responseError err st)"
proof (cases "retriable401 err")
  case False
  then have "responseError err st
      = st\<lparr>settled := settled st @ [(config err, ThrewTypeError)]\<rparr>
    \<or> responseError err st
      = st\<lparr>settled := settled st @ [(config err, RejectedWith err)]\<rparr>"
    by (auto simp: responseError_def retriable401_def Let_def split: option.split)
  with assms show ?thesis
    by (auto simp: clientInvariant_def)
next
  case True
  then obtain c where c: "config err = Some c" "\<not> retry c"
      "\<not> isAuthEndpoint (requestUrl (Some c))" "response_status err = Some 401"
    by (auto simp: retriable401_def alreadyRetried_def)
  have url_same: "requestUrl (Some (c\<lparr>retry := True\<rparr>)) = requestUrl (Some c)"
    by (simp add: requestUrl_def)
  show ?thesis
    using assms c
    by (auto simp: clientInvariant_def responseError_def Let_def alreadyRetried_def
          performTokenRefresh_def apiClient_def url_same)
qed

lemma clientInvariant_refreshResolved:
  assumes "clientInvariant st"
  shows "clientInvariant (refreshResolved pf tok st)"
  using assms
  by (cases "refreshers st")
     (auto simp: clientInvariant_def refreshResolved_def Let_def apiClient_def
        onRefreshed_eq setAccessToken_frame)

lemma clientInvariant_refreshRejected:
  assumes "clientInvariant st"
  shows "clientInvariant (refreshRejected e st)"
  using assms
  by (cases "refreshers st")
     (auto simp: clientInvariant_def refreshRejected_def Let_def clearAllAuth_frame)

lemma clientInvariant_step:
  assumes "clientInvariant st"
  shows "clientInvariant (step pf ev st)"
proof (cases ev)
  case (ResponseError err)
  with assms show ?thesis by (simp add: clientInvariant_responseError)
next
  case (RefreshResolved tok)
  with assms show ?thesis by (simp add: clientInvariant_refreshResolved)
next
  case (RefreshRejected e)
  with assms show ?thesis by (simp add: clientInvariant_refreshRejected)
next
  case ProviderMounted
  with assms show ?thesis by (simp add: clientInvariant_def providerMountEffect_client)
next
  case (BootRefreshResolved t)
  with assms show ?thesis by (simp add: clientInvariant_def attemptRefresh_resolved_client)
next
  case (BootRefreshRejected e)
  with assms show ?thesis by (simp add: clientInvariant_def attemptRefresh_rejected_client)
next
  case (LoginPersisted u t)
  with assms show ?thesis by (simp add: clientInvariant_def persistLoginInfo_client)
next
  case (Broadcast m)
  with assms show ?thesis by (simp add: clientInvariant_def handleAuthBroadcast_client)
qed

lemma clientInvariant_run:
  "clientInvariant st \<Longrightarrow> clientInvariant (run pf evs st)"
  unfolding run_def
  by (induction evs arbitrary: st) (simp_all add: clientInvariant_step)


lemma responseError_queues:
  assumes "isRefreshing st" "retriable401 err"
  shows "responseError err st =
           st\<lparr>pendingRequests := pendingRequests st @ map markRetried (List.map_filter config [err])\<rparr>"
  using assms
  by (auto simp: responseError_def retriable401_def Let_def markRetried_def List.map_filter_def)

lemma queue_while_refreshing:
  assumes "isRefreshing st" "list_all retriable401 errs"
  shows "fold (step pf) (map ResponseError errs) st =
           st\<lparr>pendingRequests := pendingRequests st @ map markRetried (List.map_filter config errs)\<rparr>"
  using assms
proof (induction errs arbitrary: st)
  case Nil
  show ?case by (simp add: List.map_filter_def)
next
  case (Cons e errs)
  have e: "retriable401 e" and errs: "list_all retriable401 errs"
    using Cons.prems(2) by simp_all
  have q: "responseError e st =
      st\<lparr>pendingRequests := pendingRequests st @ map markRetried (List.map_filter config [e])\<rparr>"
    using Cons.prems(1) e by (rule responseError_queues)
  have "isRefreshing (responseError e st)"
    using Cons.prems(1) by (simp add: q)
  from Cons.IH [OF this errs] show ?case
    by (simp add: q List.map_filter_def)
qed

lemma responseError_refreshes:
  assumes "\<not> isRefreshing st" "retriable401 err"
  shows "responseError err st =
           st\<lparr>isRefreshing := True,
              sent := sent st @ [request_interceptor st refreshRequest],
              refreshers := refreshers st @ map markRetried (List.map_filter config [err])\<rparr>"
  using assms
  by (auto simp: responseError_def retriable401_def Let_def markRetried_def List.map_filter_def
        performTokenRefresh_def apiClient_def request_interceptor_def getAccessToken_def)

lemma window_opened:
  assumes "\<not> isRefreshing st" "retriable401 e0" "list_all retriable401 errs"
  shows "run pf (ResponseError e0 # map ResponseError errs) st =
           st\<lparr>isRefreshing := True,
              sent := sent st @ [request_interceptor st refreshRequest],
              refreshers := refreshers st @ map markRetried (List.map_filter config [e0]),
              pendingRequests := pendingRequests st @ map markRetried (List.map_filter config errs)\<rparr>"
proof -
  let ?s1 = "responseError e0 st"
  have s1: "?s1 = st\<lparr>isRefreshing := True,
              sent := sent st @ [request_interceptor st refreshRequest],
              refreshers := refreshers st @ map markRetried (List.map_filter config [e0])\<rparr>"
    using assms(1,2) by (rule responseError_refreshes)
  have "isRefreshing ?s1" by (simp add: s1)
  from queue_while_refreshing [OF this assms(3), of pf] show ?thesis
    by (simp add: run_def s1)
qed

lemma isRefreshCall_refreshRequest:
  "isRefreshCall (request_interceptor st refreshRequest)"
  by (simp add: isRefreshCall_def request_interceptor_def refreshRequest_def
        split: option.split)

lemma not_isRefreshCall:
  "\<not> isAuthEndpoint (requestUrl (Some c)) \<Longrightarrow> \<not> isRefreshCall (withBearer tok c)"
  by (auto simp: isRefreshCall_def withBearer_def requestUrl_def isAuthEndpoint_def
        str_includes_self)

lemma refreshResolved_proj:
  assumes "refreshers st = c # others"
  shows "sent (refreshResolved pf tok st) = sent st @ map (withBearer tok) (pendingRequests st @ [c])"
    and "settled (refreshResolved pf tok st)
           = settled st @ map (\<lambda>r. (Some r, ResolvedWithRetry (withBearer tok r))) (pendingRequests st @ [c])"
    and "pendingRequests (refreshResolved pf tok st) = []"
    and "refreshers (refreshResolved pf tok st) = others"
    and "isRefreshing (refreshResolved pf tok st) = False"
    and "accessTokenMemory (refreshResolved pf tok st) = Some tok"
proof -
  let ?s1 = "setAccessToken pf (Some tok) (st\<lparr>refreshers := others\<rparr>)"
  have tok1: "accessTokenMemory ?s1 = Some tok"
    by (simp add: setAccessToken_frame)
  have ri: "\<And>r. request_interceptor ?s1 (withBearer tok r) = withBearer tok r"
    using tok1 by (rule request_interceptor_withBearer)
  have ri2: "\<And>r s. accessTokenMemory s = Some tok \<Longrightarrow>
      request_interceptor s (r\<lparr>authorization := Some (bearer tok)\<rparr>) = withBearer tok r"
    using request_interceptor_withBearer by (simp add: withBearer_def)
  show "sent (refreshResolved pf tok st) = sent st @ map (withBearer tok) (pendingRequests st @ [c])"
    using assms
    by (simp add: refreshResolved_def Let_def apiClient_def onRefreshed_eq ri ri2
          setAccessToken_frame)
  show "settled (refreshResolved pf tok st)
           = settled st @ map (\<lambda>r. (Some r, ResolvedWithRetry (withBearer tok r))) (pendingRequests st @ [c])"
    using assms
    by (simp add: refreshResolved_def Let_def apiClient_def onRefreshed_eq setAccessToken_frame
          withBearer_def)
  show "pendingRequests (refreshResolved pf tok st) = []"
    using assms by (simp add: refreshResolved_def Let_def apiClient_def onRefreshed_eq)
  show "refreshers (refreshResolved pf tok st) = others"
    using assms
    by (simp add: refreshResolved_def Let_def apiClient_def onRefreshed_eq setAccessToken_frame)
  show "isRefreshing (refreshResolved pf tok st) = False"
    using assms by (simp add: refreshResolved_def Let_def)
  show "accessTokenMemory (refreshResolved pf tok st) = Some tok"
    using assms
    by (simp add: refreshResolved_def Let_def apiClient_def onRefreshed_eq setAccessToken_frame)
qed

lemma refreshRejected_proj:
  assumes "refreshers st = c # others"
  shows "sent (refreshRejected e st) = sent st"
    and "settled (refreshRejected e st) = settled st @ [(Some c, RejectedWith e)]"
    and "pendingRequests (refreshRejected e st) = pendingRequests st"
    and "refreshers (refreshRejected e st) = others"
    and "isRefreshing (refreshRejected e st) = False"
  using assms by (simp_all add: refreshRejected_def Let_def clearAllAuth_frame)

lemma retriable401_config:
  assumes "retriable401 e"
  obtains c where "config e = Some c" "List.map_filter config [e] = [c]"
    "\<not> isAuthEndpoint (requestUrl (Some (markRetried c)))" "retry (markRetried c)"
  using assms
  by (auto simp: retriable401_def List.map_filter_def markRetried_def requestUrl_def)

lemma retriable401_queue:
  assumes "list_all retriable401 errs"
  shows "list_all (\<lambda>c. retry c \<and> \<not> isAuthEndpoint (requestUrl (Some c)))
           (map markRetried (List.map_filter config errs))"
    and "length (List.map_filter config errs) = length errs"
  using assms
  by (induction errs)
     (auto simp: List.map_filter_def retriable401_def markRetried_def requestUrl_def)

lemma filter_isRefreshCall_resumed:
  assumes "list_all (\<lambda>c. retry c \<and> \<not> isAuthEndpoint (requestUrl (Some c))) cs"
  shows "filter isRefreshCall (map (withBearer tok) cs) = []"
  using assms by (induction cs) (auto simp: not_isRefreshCall)

lemma reachable_closed:
  assumes "st = run pf evs (freshTab path stored)" "\<not> isRefreshing st"
  shows "refreshers st = []"
    and "list_all (\<lambda>c. retry c \<and> \<not> isAuthEndpoint (requestUrl (Some c))) (pendingRequests st)"
proof -
  have "clientInvariant st"
    using assms(1) clientInvariant_fresh clientInvariant_run by simp
  with assms(2) show "refreshers st = []"
    and "list_all (\<lambda>c. retry c \<and> \<not> isAuthEndpoint (requestUrl (Some c))) (pendingRequests st)"
    by (simp_all add: clientInvariant_def)
qed

lemma loggedInTab_eq:
  "loggedInTab =
     \<lparr>accessTokenMemory = Some ''t1'', accessExpiryTimer = None, authChannel = True,
      localStorage_user = Some exampleUser, timeouts = [], nextTimer = 0,
      posted = [Login exampleUser ''t1''],
      pathname = ''/inbox'', navigations = [], userState = None, bootstrapped = True,
      bootRefreshes = 0, queryClientClears = 0,
      isRefreshing = False, pendingRequests = [], refreshers = [], sent = [],
      settled = []\<rparr>"
  by (simp add: loggedInTab_def run_def freshTab_def initAuthWatchers_def
        providerMountEffect_def attemptRefresh_def setBootstrapped_def getStoredUser_def
        setupAuthBroadcastListener_def
        initBroadcastChannel_def scheduleAccessExpiryWatcher_def clearTimer_def decodeJwtExp_def
        persistLoginInfo_def broadcastAuthChange_def setAccessToken_def setStoredUser_def
        examplePlatform_def Let_def)

lemma refreshingTab_eq:
  "refreshingTab =
     \<lparr>accessTokenMemory = Some ''t1'', accessExpiryTimer = None, authChannel = True,
      localStorage_user = Some exampleUser, timeouts = [], nextTimer = 0,
      posted = [Login exampleUser ''t1''],
      pathname = ''/inbox'', navigations = [], userState = None, bootstrapped = True,
      bootRefreshes = 0, queryClientClears = 0,
      isRefreshing = True, pendingRequests = [],
      refreshers = [\<lparr>url = Some ''/api/mailboxes'', authorization = Some ''Bearer t1'',
                      retry = True, payload = []\<rparr>],
      sent = [\<lparr>url = Some ''/api/auth/refresh'', authorization = Some ''Bearer t1'',
                      retry = False, payload = ''{}''\<rparr>],
      settled = []\<rparr>"
  by (simp add: refreshingTab_def loggedInTab_eq run_def responseError_def unauthorized_def
        requestFor_def requestUrl_def alreadyRetried_def isAuthEndpoint_def
        performTokenRefresh_def apiClient_def request_interceptor_def getAccessToken_def
        refreshRequest_def bearer_def Let_def)

section \<open>The claims about the refresh interceptor\<close>

text \<open>
  C1, as stated, fails: the flag \<open>isRefreshing\<close> coordinates the refresh calls of the
  interceptor only. A tab loaded with a stored user issues a refresh call from the
  provider's mount effect; a request for the mailboxes that comes back with 401 before
  that call settles makes the interceptor issue a second one. Two refresh calls have been
  sent, both are in flight, nothing has settled.
\<close>

theorem two_refresh_calls_in_flight_counterexample:
  "refreshCallsInFlight reloadedTab = 2
   \<and> refreshCalls reloadedTab = 2
   \<and> bootRefreshes reloadedTab = 1
   \<and> refreshers reloadedTab
       = [\<lparr>url = Some ''/api/mailboxes'', authorization = None, retry = True, payload = []\<rparr>]
   \<and> settled reloadedTab = []"
  by (simp add: reloadedTab_def run_def freshTab_def providerMountEffect_def
        setupAuthBroadcastListener_def initAuthWatchers_def initBroadcastChannel_def
        scheduleAccessExpiryWatcher_def clearTimer_def decodeJwtExp_def attemptRefresh_def
        getStoredUser_def rotateTokens_def apiClient_def request_interceptor_def
        getAccessToken_def refreshRequest_def examplePlatform_def responseError_def
        unauthorized_def requestFor_def requestUrl_def alreadyRetried_def isAuthEndpoint_def
        performTokenRefresh_def refreshCallsInFlight_def refreshCalls_def isRefreshCall_def
        Let_def)

text \<open>
  C1, amended. In every state the tab reaches, at most one invocation of the interceptor
  is suspended on a refresh call, so at most one refresh call of the interceptor is in
  flight; the refresh call of the provider's mount effect is outside the flag and can be
  in flight beside it. When a request fails with 401 while no refresh call of the
  interceptor is in flight and any number of further requests fail with 401 before the
  refresh settles (all of them for urls that are no auth endpoints, none retried before),
  the interceptor has issued exactly one refresh call; when that call resolves with a
  token, every one of these requests, and whatever was still queued, is resubmitted once
  with \<open>Bearer\<close> and that same token, in the order of queueing with the request that
  started the refresh last, and the queue and the flag are cleared.
\<close>

theorem single_flight_refresh:
  assumes reach: "st = run pf evs (freshTab path stored)"
      and closed: "\<not> isRefreshing st"
      and first: "retriable401 e0"
      and rest: "list_all retriable401 errs"
  shows "(\<forall>trace. length (refreshers (run pf trace (freshTab path stored))) \<le> 1)
       \<and> length (refreshers (run pf (ResponseError e0 # map ResponseError errs) st)) = 1
       \<and> refreshCalls (run pf (ResponseError e0 # map ResponseError errs) st) = Suc (refreshCalls st)
       \<and> (let final = run pf (ResponseError e0 # map ResponseError errs @ [RefreshResolved token]) st;
              retried = pendingRequests st @ map markRetried (List.map_filter config (errs @ [e0]))
          in length (List.map_filter config (errs @ [e0])) = Suc (length errs)
           \<and> refreshCalls final = Suc (refreshCalls st)
           \<and> sent final = sent st @ [request_interceptor st refreshRequest] @ map (withBearer token) retried
           \<and> settled final
               = settled st @ map (\<lambda>c. (Some c, ResolvedWithRetry (withBearer token c))) retried
           \<and> accessTokenMemory final = Some token
           \<and> pendingRequests final = [] \<and> refreshers final = [] \<and> \<not> isRefreshing final)"
proof -
  let ?window = "ResponseError e0 # map ResponseError errs"
  let ?queued = "map markRetried (List.map_filter config errs)"
  let ?own = "map markRetried (List.map_filter config [e0])"
  let ?open = "run pf ?window st"
  let ?final = "run pf (ResponseError e0 # map ResponseError errs @ [RefreshResolved token]) st"
  have inflight: "\<forall>trace. length (refreshers (run pf trace (freshTab path stored))) \<le> 1"
  proof
    fix trace
    have "clientInvariant (run pf trace (freshTab path stored))"
      using clientInvariant_fresh clientInvariant_run by simp
    then show "length (refreshers (run pf trace (freshTab path stored))) \<le> 1"
      by (simp add: clientInvariant_def)
  qed
  have none: "refreshers st = []"
    and old: "list_all (\<lambda>c. retry c \<and> \<not> isAuthEndpoint (requestUrl (Some c))) (pendingRequests st)"
    using reachable_closed [OF reach closed] by simp_all
  obtain c0 where c0: "config e0 = Some c0" "List.map_filter config [e0] = [c0]"
      "\<not> isAuthEndpoint (requestUrl (Some (markRetried c0)))" "retry (markRetried c0)"
    using first by (rule retriable401_config)
  have opened: "?open = st\<lparr>isRefreshing := True,
              sent := sent st @ [request_interceptor st refreshRequest],
              refreshers := [markRetried c0],
              pendingRequests := pendingRequests st @ ?queued\<rparr>"
    using window_opened [OF closed first rest, of pf] by (simp add: none c0)
  have one: "length (refreshers ?open) = 1"
    by (simp add: opened)
  have calls_open: "refreshCalls ?open = Suc (refreshCalls st)"
    by (simp add: opened refreshCalls_def isRefreshCall_refreshRequest)
  have final: "?final = refreshResolved pf token ?open"
    by (simp add: run_def)
  have r: "refreshers ?open = markRetried c0 # []"
    by (simp add: opened)
  have split: "List.map_filter config (errs @ [e0]) = List.map_filter config errs @ [c0]"
    using c0(2) by (simp add: List.map_filter_def)
  have queued_ok: "list_all (\<lambda>c. retry c \<and> \<not> isAuthEndpoint (requestUrl (Some c))) ?queued"
    and len: "length (List.map_filter config errs) = length errs"
    using retriable401_queue [OF rest] by simp_all
  have all_ok: "list_all (\<lambda>c. retry c \<and> \<not> isAuthEndpoint (requestUrl (Some c)))
      (pendingRequests st @ ?queued @ [markRetried c0])"
    using old queued_ok c0 by simp
  have sent_final: "sent ?final = sent st @ [request_interceptor st refreshRequest]
      @ map (withBearer token) (pendingRequests st @ ?queued @ [markRetried c0])"
    by (simp add: final refreshResolved_proj(1) [OF r]) (simp add: opened)
  have settled_final: "settled ?final = settled st
      @ map (\<lambda>c. (Some c, ResolvedWithRetry (withBearer token c)))
          (pendingRequests st @ ?queued @ [markRetried c0])"
    by (simp add: final refreshResolved_proj(2) [OF r]) (simp add: opened)
  have calls_final: "refreshCalls ?final = Suc (refreshCalls st)"
    unfolding refreshCalls_def sent_final
    using filter_isRefreshCall_resumed [OF all_ok, of token]
    by (simp add: isRefreshCall_refreshRequest del: map_append)
  have rest_final: "accessTokenMemory ?final = Some token" "pendingRequests ?final = []"
      "refreshers ?final = []" "\<not> isRefreshing ?final"
    by (simp_all add: final refreshResolved_proj [OF r])
  show ?thesis
    using inflight one calls_open calls_final sent_final settled_final rest_final len
    by (simp add: Let_def split c0)
qed


text \<open>
  Three requests fail with 401 in a tab that holds the token \<open>t1\<close>; the refresh resolves
  with \<open>t2\<close>. One refresh call went out, and the three requests were resubmitted with
  \<open>t2\<close>.
\<close>

theorem single_flight_refresh_witness:
  "sent (run examplePlatform
           [ResponseError (unauthorized (requestFor ''/api/mailboxes'')),
            ResponseError (unauthorized (requestFor ''/api/emails'')),
            ResponseError (unauthorized (requestFor ''/api/kanban'')),
            RefreshResolved ''t2''] loggedInTab)
     = [\<lparr>url = Some ''/api/auth/refresh'', authorization = Some ''Bearer t1'', retry = False,
         payload = ''{}''\<rparr>,
        \<lparr>url = Some ''/api/emails'', authorization = Some ''Bearer t2'', retry = True,
         payload = []\<rparr>,
        \<lparr>url = Some ''/api/kanban'', authorization = Some ''Bearer t2'', retry = True,
         payload = []\<rparr>,
        \<lparr>url = Some ''/api/mailboxes'', authorization = Some ''Bearer t2'', retry = True,
         payload = []\<rparr>]
   \<and> refreshCalls (run examplePlatform
           [ResponseError (unauthorized (requestFor ''/api/mailboxes'')),
            ResponseError (unauthorized (requestFor ''/api/emails'')),
            ResponseError (unauthorized (requestFor ''/api/kanban'')),
            RefreshResolved ''t2''] loggedInTab) = 1"
  using single_flight_refresh
    [where st = loggedInTab and pf = examplePlatform
       and evs = "[ProviderMounted, LoginPersisted exampleUser ''t1'']"
       and path = "''/inbox''" and stored = None
       and ?e0.0 = "unauthorized (requestFor ''/api/mailboxes'')"
       and errs = "[unauthorized (requestFor ''/api/emails''),
                    unauthorized (requestFor ''/api/kanban'')]"
       and token = "''t2''"]
  by (simp add: loggedInTab_def [symmetric] loggedInTab_eq retriable401_def unauthorized_def
        requestFor_def alreadyRetried_def requestUrl_def isAuthEndpoint_def
        List.map_filter_def markRetried_def withBearer_def bearer_def refreshCalls_def
        request_interceptor_def getAccessToken_def refreshRequest_def isRefreshCall_def Let_def)

text \<open>
  C6. A 401 response to an auth endpoint (refresh, logout, OAuth login), or to a request
  that already carries the retry mark, leaves the error handler as the rejection of that
  very error: the tab is unchanged but for the rejection in the log of settled promises,
  so no request is sent, no refresh call is issued, nothing is queued and the in-flight
  flag keeps its value. The three auth urls of the API are auth endpoints.
\<close>

theorem auth_endpoint_or_retried_401_propagates:
  assumes "response_status err = Some 401"
      and "isAuthEndpoint (requestUrl (config err)) \<or> alreadyRetried (config err)"
  shows "responseError err st = st\<lparr>settled := settled st @ [(config err, RejectedWith err)]\<rparr>
         \<and> sent (responseError err st) = sent st
         \<and> refreshers (responseError err st) = refreshers st
         \<and> pendingRequests (responseError err st) = pendingRequests st
         \<and> isRefreshing (responseError err st) = isRefreshing st
         \<and> isAuthEndpoint ''/api/auth/refresh''
         \<and> isAuthEndpoint ''/api/auth/logout''
         \<and> isAuthEndpoint ''/api/auth/google/login''"
proof -
  have eq: "responseError err st = st\<lparr>settled := settled st @ [(config err, RejectedWith err)]\<rparr>"
    using assms(2) by (auto simp: responseError_def Let_def)
  have "isAuthEndpoint ''/api/auth/refresh''" "isAuthEndpoint ''/api/auth/logout''"
       "isAuthEndpoint ''/api/auth/google/login''"
    by (simp_all add: isAuthEndpoint_def)
  then show ?thesis by (simp add: eq)
qed

text \<open>
  The refresh call itself comes back with 401 while it is in flight: the handler rejects
  it and starts nothing.
\<close>

theorem auth_endpoint_or_retried_401_propagates_witness:
  "responseError \<lparr>config = Some refreshRequest, response_status = Some 401, message = ''Unauthorized''\<rparr>
      ((freshTab ''/inbox'' None)\<lparr>isRefreshing := True, refreshers := [refreshRequest]\<rparr>)
   = (freshTab ''/inbox'' None)\<lparr>isRefreshing := True, refreshers := [refreshRequest],
        settled := [(Some refreshRequest,
           RejectedWith \<lparr>config = Some refreshRequest, response_status = Some 401, message = ''Unauthorized''\<rparr>)]\<rparr>"
  using auth_endpoint_or_retried_401_propagates
    [of "\<lparr>config = Some refreshRequest, response_status = Some 401, message = ''Unauthorized''\<rparr>"
        "(freshTab ''/inbox'' None)\<lparr>isRefreshing := True, refreshers := [refreshRequest]\<rparr>"]
  by (simp add: isAuthEndpoint_def requestUrl_def refreshRequest_def freshTab_def)

text \<open>
  C5. When the refresh call in flight rejects with \<open>e\<close>, the interceptor clears the local
  auth state (the token in memory, the stored user, the expiry watcher and its armed
  timeout) and posts the logout on the channel when there is one, navigates to
  \<open>/login\<close> unless the location is \<open>/login\<close> already, and rejects the request that started
  the refresh with \<open>e\<close>. The in-flight flag is false afterwards, as it is after a refresh
  that resolved.
\<close>

theorem refresh_failure_clears_auth_and_redirects:
  assumes "refreshers st = originalRequest # others"
  shows "accessTokenMemory (refreshRejected e st) = None
       \<and> localStorage_user (refreshRejected e st) = None
       \<and> accessExpiryTimer (refreshRejected e st) = None
       \<and> (case accessExpiryTimer st of
            None \<Rightarrow> timeouts (refreshRejected e st) = timeouts st
          | Some h \<Rightarrow> h \<notin> fst ` set (timeouts (refreshRejected e st)))
       \<and> posted (refreshRejected e st) = posted st @ (if authChannel st then [Logout] else [])
       \<and> navigations (refreshRejected e st)
           = navigations st @ (if pathname st = ''/login'' then [] else [''/login''])
       \<and> settled (refreshRejected e st) = settled st @ [(Some originalRequest, RejectedWith e)]
       \<and> isRefreshing (refreshRejected e st) = False
       \<and> isRefreshing (refreshResolved pf accessToken st) = False"
  using assms
  by (auto simp: refreshRejected_def refreshResolved_def Let_def clearAllAuth_frame
        clearLocalAuth_timeouts clearLocalAuth_frame split: option.split)

text \<open>
  The refresh started for a request for the mailboxes fails on the network, in a tab at
  \<open>/inbox\<close> with a channel: the auth state is gone, the logout is posted, the tab
  navigates to \<open>/login\<close> and the request is rejected with the refresh's error.
\<close>

theorem refresh_failure_clears_auth_and_redirects_witness:
  "accessTokenMemory (refreshRejected (networkError refreshRequest) refreshingTab) = None
   \<and> localStorage_user (refreshRejected (networkError refreshRequest) refreshingTab) = None
   \<and> posted (refreshRejected (networkError refreshRequest) refreshingTab)
        = [Login exampleUser ''t1'', Logout]
   \<and> navigations (refreshRejected (networkError refreshRequest) refreshingTab) = [''/login'']
   \<and> settled (refreshRejected (networkError refreshRequest) refreshingTab)
        = [(Some \<lparr>url = Some ''/api/mailboxes'', authorization = Some ''Bearer t1'',
                   retry = True, payload = []\<rparr>,
            RejectedWith (networkError refreshRequest))]
   \<and> isRefreshing (refreshRejected (networkError refreshRequest) refreshingTab) = False"
  using refresh_failure_clears_auth_and_redirects
    [where st = refreshingTab and e = "networkError refreshRequest"
       and originalRequest = "\<lparr>url = Some ''/api/mailboxes'', authorization = Some ''Bearer t1'',
                      retry = True, payload = []\<rparr>"
       and others = "[]" and pf = examplePlatform and accessToken = "''t2''"]
  by (simp add: refreshingTab_eq)

text \<open>
  C9. When the refresh call rejects while requests are queued behind it, the failed cycle
  settles one promise only, that of the request which started the refresh, and sends
  nothing: the continuations queued during the window are all still in the queue when the
  cycle ends (flag cleared, no refresh in flight), none of them called with a token, none
  of their promises resolved or rejected.
\<close>

theorem queued_requests_dangle_on_refresh_failure:
  assumes reach: "st = run pf evs (freshTab path stored)"
      and closed: "\<not> isRefreshing st"
      and first: "retriable401 e0"
      and rest: "list_all retriable401 errs"
  shows "(let failed = run pf (ResponseError e0 # map ResponseError errs @ [RefreshRejected e]) st
          in pendingRequests failed = pendingRequests st @ map markRetried (List.map_filter config errs)
           \<and> length (List.map_filter config errs) = length errs
           \<and> sent failed = sent st @ [request_interceptor st refreshRequest]
           \<and> settled failed
               = settled st @ map (\<lambda>c. (Some (markRetried c), RejectedWith e)) (List.map_filter config [e0])
           \<and> refreshers failed = [] \<and> \<not> isRefreshing failed)"
proof -
  let ?queued = "map markRetried (List.map_filter config errs)"
  let ?open = "run pf (ResponseError e0 # map ResponseError errs) st"
  let ?failed = "run pf (ResponseError e0 # map ResponseError errs @ [RefreshRejected e]) st"
  have none: "refreshers st = []"
    using reachable_closed(1) [OF reach closed] .
  obtain c0 where c0: "config e0 = Some c0" "List.map_filter config [e0] = [c0]"
    using first by (rule retriable401_config)
  have opened: "?open = st\<lparr>isRefreshing := True,
              sent := sent st @ [request_interceptor st refreshRequest],
              refreshers := [markRetried c0],
              pendingRequests := pendingRequests st @ ?queued\<rparr>"
    using window_opened [OF closed first rest, of pf] by (simp add: none c0)
  have failed: "?failed = refreshRejected e ?open"
    by (simp add: run_def)
  have r: "refreshers ?open = markRetried c0 # []"
    by (simp add: opened)
  have len: "length (List.map_filter config errs) = length errs"
    using retriable401_queue(2) [OF rest] .
  have "pendingRequests ?failed = pendingRequests st @ ?queued"
    by (simp add: failed refreshRejected_proj(3) [OF r]) (simp add: opened)
  moreover have "sent ?failed = sent st @ [request_interceptor st refreshRequest]"
    by (simp add: failed refreshRejected_proj(1) [OF r]) (simp add: opened)
  moreover have "settled ?failed = settled st @ [(Some (markRetried c0), RejectedWith e)]"
    by (simp add: failed refreshRejected_proj(2) [OF r]) (simp add: opened)
  moreover have "refreshers ?failed = []" "\<not> isRefreshing ?failed"
    by (simp_all add: failed refreshRejected_proj [OF r])
  ultimately show ?thesis
    using len by (simp add: Let_def c0)
qed

text \<open>
  Two requests are queued behind a refresh that fails: they stay queued, only the refresh
  call was sent, only the first request was rejected.
\<close>

theorem queued_requests_dangle_on_refresh_failure_witness:
  "pendingRequests (run examplePlatform
           [ResponseError (unauthorized (requestFor ''/api/mailboxes'')),
            ResponseError (unauthorized (requestFor ''/api/emails'')),
            ResponseError (unauthorized (requestFor ''/api/kanban'')),
            RefreshRejected (networkError refreshRequest)] loggedInTab)
     = [\<lparr>url = Some ''/api/emails'', authorization = None, retry = True, payload = []\<rparr>,
        \<lparr>url = Some ''/api/kanban'', authorization = None, retry = True, payload = []\<rparr>]
   \<and> sent (run examplePlatform
           [ResponseError (unauthorized (requestFor ''/api/mailboxes'')),
            ResponseError (unauthorized (requestFor ''/api/emails'')),
            ResponseError (unauthorized (requestFor ''/api/kanban'')),
            RefreshRejected (networkError refreshRequest)] loggedInTab)
     = [\<lparr>url = Some ''/api/auth/refresh'', authorization = Some ''Bearer t1'', retry = False,
         payload = ''{}''\<rparr>]
   \<and> settled (run examplePlatform
           [ResponseError (unauthorized (requestFor ''/api/mailboxes'')),
            ResponseError (unauthorized (requestFor ''/api/emails'')),
            ResponseError (unauthorized (requestFor ''/api/kanban'')),
            RefreshRejected (networkError refreshRequest)] loggedInTab)
     = [(Some \<lparr>url = Some ''/api/mailboxes'', authorization = None, retry = True, payload = []\<rparr>,
         RejectedWith (networkError refreshRequest))]"
  using queued_requests_dangle_on_refresh_failure
    [where st = loggedInTab and pf = examplePlatform
       and evs = "[ProviderMounted, LoginPersisted exampleUser ''t1'']"
       and path = "''/inbox''" and stored = None
       and ?e0.0 = "unauthorized (requestFor ''/api/mailboxes'')"
       and errs = "[unauthorized (requestFor ''/api/emails''),
                    unauthorized (requestFor ''/api/kanban'')]"
       and e = "networkError refreshRequest"]
  by (simp add: loggedInTab_def [symmetric] loggedInTab_eq retriable401_def unauthorized_def
        requestFor_def alreadyRetried_def requestUrl_def isAuthEndpoint_def
        List.map_filter_def markRetried_def bearer_def
        request_interceptor_def getAccessToken_def refreshRequest_def Let_def)

text \<open>
  C7, as stated, fails: a tab that holds the token \<open>t1\<close> and answers a 401 with a
  refresh sends the refresh call through the same request interceptor as every other
  request, with \<open>Authorization: Bearer t1\<close>.
\<close>

theorem refresh_call_carries_bearer_counterexample:
  "sent refreshingTab
     = [\<lparr>url = Some ''/api/auth/refresh'', authorization = Some ''Bearer t1'', retry = False,
         payload = ''{}''\<rparr>]"
  by (simp add: refreshingTab_eq)

text \<open>
  C7, amended. The refresh call is a request for \<open>/api/auth/refresh\<close> with an empty
  object as its payload, so the credential is the cookie alone; its Authorization header
  is whatever the request interceptor gives every request: \<open>Bearer\<close> and the token in
  memory when that token is present and not empty, no header otherwise.
\<close>

theorem refresh_call_header_follows_token_holder:
  "sent (performTokenRefresh st)
     = sent st @
       [\<lparr>url = Some ''/api/auth/refresh'',
         authorization =
           (case accessTokenMemory st of
              None \<Rightarrow> None
            | Some t \<Rightarrow> if t = [] then None else Some (''Bearer '' @ t)),
         retry = False, payload = ''{}''\<rparr>]"
  by (simp add: performTokenRefresh_def apiClient_def request_interceptor_def
        getAccessToken_def refreshRequest_def bearer_def split: option.split)

text \<open>In a tab that was just loaded the holder is empty and the call has no header.\<close>

theorem refresh_call_header_follows_token_holder_witness:
  "sent (performTokenRefresh (freshTab ''/inbox'' (Some exampleUser)))
     = [\<lparr>url = Some ''/api/auth/refresh'', authorization = None, retry = False,
         payload = ''{}''\<rparr>]"
  using refresh_call_header_follows_token_holder [of "freshTab ''/inbox'' (Some exampleUser)"]
  by (simp add: freshTab_def)

section \<open>The claims about the cross-tab channel\<close>

text \<open>
  C8. Handling a \<open>logout\<close> message of another tab posts nothing on the channel, whether
  the handler is called directly or the message is delivered as an event; it clears the
  token in memory, the stored user, the expiry watcher with its armed timeout, and the
  provider's user. So the tab that receives a logout never answers it with a logout of
  its own.
\<close>

theorem logout_broadcast_clears_without_rebroadcast:
  "posted (handleAuthBroadcast pf Logout st) = posted st
   \<and> posted (step pf (Broadcast Logout) st) = posted st
   \<and> accessTokenMemory (handleAuthBroadcast pf Logout st) = None
   \<and> localStorage_user (handleAuthBroadcast pf Logout st) = None
   \<and> accessExpiryTimer (handleAuthBroadcast pf Logout st) = None
   \<and> (case accessExpiryTimer st of
        None \<Rightarrow> timeouts (handleAuthBroadcast pf Logout st) = timeouts st
      | Some h \<Rightarrow> h \<notin> fst ` set (timeouts (handleAuthBroadcast pf Logout st)))
   \<and> userState (handleAuthBroadcast pf Logout st) = None"
  by (auto simp: handleAuthBroadcast_def queryClient_clear_def setUserState_def
        clearLocalAuth_frame clearLocalAuth_timeouts split: option.split)

text \<open>
  A logged-in tab receives the logout: the one message it has posted is still its own
  login, and its auth state is gone.
\<close>

theorem logout_broadcast_clears_without_rebroadcast_witness:
  "posted (step examplePlatform (Broadcast Logout) loggedInTab) = [Login exampleUser ''t1'']
   \<and> accessTokenMemory (handleAuthBroadcast examplePlatform Logout loggedInTab) = None
   \<and> localStorage_user (handleAuthBroadcast examplePlatform Logout loggedInTab) = None"
  using logout_broadcast_clears_without_rebroadcast [of examplePlatform loggedInTab]
  by (simp add: loggedInTab_eq)




section \<open>The claims about the cache facade and the push handler\<close>

text \<open>
  C3. When the store holds the mailbox list, the read returns the cached list as a
  success and leaves the live call running detached: what the caller gets is fixed before
  the live call settles, and is the same whether it resolves, rejects or has not settled.
  When the live call resolves, the background chain overwrites the entry with the fetched
  list, in the store as it is then; when it rejects, the chain writes a warning to the
  console and returns the store as it found it, and the caller sees no error.
\<close>

theorem mailboxes_read_serves_cache_first:
  assumes "getCachedMailboxes db = Some cached"
  shows "getMailboxesCached db
           = Served \<lparr>status = ''success'', response_data = \<lparr>mailboxes = data cached\<rparr>\<rparr> GetMailboxes
       \<and> mailboxesReadOutcome now live db dbThen
           = Some (Inr \<lparr>status = ''success'', response_data = \<lparr>mailboxes = data cached\<rparr>\<rparr>)
       \<and> getCachedMailboxes (fst (getMailboxesCached_background now (Fulfilled response) dbThen))
           = Some \<lparr>data = mailboxes (response_data response), meta = (), fetchedAt = now\<rparr>
       \<and> getMailboxesCached_background now (Failed err) dbThen
           = (dbThen, [''Background mailbox fetch failed: '' @ message err])"
  using assms
  by (simp add: getMailboxesCached_def mailboxesReadOutcome_def getMailboxesCached_background_def
        cacheMailboxes_def getCachedMailboxes_def)

text \<open>
  A store with two mailboxes cached: the read serves them, a background success replaces
  them, a background failure only warns.
\<close>

theorem mailboxes_read_serves_cache_first_witness:
  "getMailboxesCached warmCache
     = Served \<lparr>status = ''success'', response_data = \<lparr>mailboxes = [''INBOX'', ''SENT'']\<rparr>\<rparr>
         GetMailboxes
   \<and> mailboxesReadOutcome 9 None warmCache warmCache
     = Some (Inr \<lparr>status = ''success'', response_data = \<lparr>mailboxes = [''INBOX'', ''SENT'']\<rparr>\<rparr>)
   \<and> getCachedMailboxes
       (fst (getMailboxesCached_background 9
              (Fulfilled \<lparr>status = ''success'', response_data = \<lparr>mailboxes = [''INBOX'']\<rparr>\<rparr>)
              warmCache))
     = Some \<lparr>data = [''INBOX''], meta = (), fetchedAt = 9\<rparr>
   \<and> getMailboxesCached_background 9 (Failed (networkError (requestFor ''/api/mailboxes''))) warmCache
     = (warmCache, [''Background mailbox fetch failed: Network Error''])"
  using mailboxes_read_serves_cache_first
    [where db = warmCache and cached = "\<lparr>data = [''INBOX'', ''SENT''], meta = (), fetchedAt = 5\<rparr>"
       and now = 9 and live = None and dbThen = warmCache
       and response = "\<lparr>status = ''success'', response_data = \<lparr>mailboxes = [''INBOX'']\<rparr>\<rparr>"
       and err = "networkError (requestFor ''/api/mailboxes'')"]
  by (simp add: warmCache_def emptyCache_def getCachedMailboxes_def cacheMailboxes_def
        cacheEmailList_def networkError_def)



text \<open>
  C2. Whatever the notification holds and whichever of the two store invalidations
  completes first, the handler performs both store invalidations and then fires its three
  refetch signals, and nothing else: the effects up to the first signal are exactly the
  two invalidations, the effects from there on are exactly the three signals. When the
  first signal fires no signal has fired before, and the store misses on the mailbox list
  and on every email-list page, so that a read of the mailboxes triggered by the signal
  has to go to the network; the same holds when the handler is done. In other words, at
  every refetch signal of the handler both invalidations have been performed and none is
  still to come.
\<close>

theorem push_invalidates_store_before_refetch:
  "set (takeWhile isStoreInvalidation (handleGmailNotification notification listsFirst))
     = {InvalidateAllEmailLists, InvalidateMailboxes}
   \<and> dropWhile isStoreInvalidation (handleGmailNotification notification listsFirst)
     = [InvalidateQueries ''emails'', InvalidateQueries ''mailboxes'',
        InvalidateQueries ''kanban-emails'']
   \<and> invalidatedQueries
       (fold perform (takeWhile isStoreInvalidation (handleGmailNotification notification listsFirst)) pg)
     = invalidatedQueries pg
   \<and> getCachedMailboxes (cache
       (fold perform (takeWhile isStoreInvalidation (handleGmailNotification notification listsFirst)) pg))
     = None
   \<and> getCachedEmailList mailboxId pageToken (cache
       (fold perform (takeWhile isStoreInvalidation (handleGmailNotification notification listsFirst)) pg))
     = None
   \<and> getMailboxesCached (cache
       (fold perform (takeWhile isStoreInvalidation (handleGmailNotification notification listsFirst)) pg))
     = AwaitLive GetMailboxes ()
   \<and> invalidatedQueries (fold perform (handleGmailNotification notification listsFirst) pg)
     = invalidatedQueries pg @ [''emails'', ''mailboxes'', ''kanban-emails'']
   \<and> getCachedMailboxes (cache (fold perform (handleGmailNotification notification listsFirst) pg))
     = None
   \<and> getCachedEmailList mailboxId pageToken
       (cache (fold perform (handleGmailNotification notification listsFirst) pg))
     = None
   \<and> (\<forall>before queryKey after.
         handleGmailNotification notification listsFirst = before @ InvalidateQueries queryKey # after
         \<longrightarrow> InvalidateAllEmailLists \<in> set before \<and> InvalidateMailboxes \<in> set before
             \<and> list_all (\<lambda>a. \<not> isStoreInvalidation a) after)"
proof -
  have split: "\<forall>before queryKey after.
         handleGmailNotification notification listsFirst = before @ InvalidateQueries queryKey # after
         \<longrightarrow> InvalidateAllEmailLists \<in> set before \<and> InvalidateMailboxes \<in> set before
             \<and> list_all (\<lambda>a. \<not> isStoreInvalidation a) after"
    by (auto simp: handleGmailNotification_def Cons_eq_append_conv isStoreInvalidation_def
          split: if_splits)
  have rest: "set (takeWhile isStoreInvalidation (handleGmailNotification notification listsFirst))
     = {InvalidateAllEmailLists, InvalidateMailboxes}
   \<and> dropWhile isStoreInvalidation (handleGmailNotification notification listsFirst)
     = [InvalidateQueries ''emails'', InvalidateQueries ''mailboxes'',
        InvalidateQueries ''kanban-emails'']
   \<and> invalidatedQueries
       (fold perform (takeWhile isStoreInvalidation (handleGmailNotification notification listsFirst)) pg)
     = invalidatedQueries pg
   \<and> getCachedMailboxes (cache
       (fold perform (takeWhile isStoreInvalidation (handleGmailNotification notification listsFirst)) pg))
     = None
   \<and> getCachedEmailList mailboxId pageToken (cache
       (fold perform (takeWhile isStoreInvalidation (handleGmailNotification notification listsFirst)) pg))
     = None
   \<and> getMailboxesCached (cache
       (fold perform (takeWhile isStoreInvalidation (handleGmailNotification notification listsFirst)) pg))
     = AwaitLive GetMailboxes ()
   \<and> invalidatedQueries (fold perform (handleGmailNotification notification listsFirst) pg)
     = invalidatedQueries pg @ [''emails'', ''mailboxes'', ''kanban-emails'']
   \<and> getCachedMailboxes (cache (fold perform (handleGmailNotification notification listsFirst) pg))
     = None
   \<and> getCachedEmailList mailboxId pageToken
       (cache (fold perform (handleGmailNotification notification listsFirst) pg))
     = None"
    by (cases listsFirst)
       (auto simp: handleGmailNotification_def isStoreInvalidation_def getCachedMailboxes_def
          getCachedEmailList_def getMailboxesCached_def invalidateMailboxes_def
          invalidateAllEmailListsForMailbox_def)
  from rest split show ?thesis by blast
qed

text \<open>
  A notification arrives over a store that holds the mailbox list and a page of the
  inbox: the mailbox invalidation completes first, then the email lists, then the three
  signals fire over a store that misses on both.
\<close>

theorem push_invalidates_store_before_refetch_witness:
  "handleGmailNotification ''historyId=42'' False
     = [InvalidateMailboxes, InvalidateAllEmailLists, InvalidateQueries ''emails'',
        InvalidateQueries ''mailboxes'', InvalidateQueries ''kanban-emails'']
   \<and> getCachedMailboxes warmCache = Some \<lparr>data = [''INBOX'', ''SENT''], meta = (), fetchedAt = 5\<rparr>
   \<and> getCachedEmailList ''INBOX'' (Some ''p2'') warmCache
       = Some \<lparr>data = [''m21'', ''m22''], meta = ''next=p3'', fetchedAt = 5\<rparr>
   \<and> getCachedMailboxes
       (cache (fold perform [InvalidateMailboxes, InvalidateAllEmailLists]
                 \<lparr>cache = warmCache, invalidatedQueries = []\<rparr>)) = None
   \<and> getCachedEmailList ''INBOX'' (Some ''p2'')
       (cache (fold perform [InvalidateMailboxes, InvalidateAllEmailLists]
                 \<lparr>cache = warmCache, invalidatedQueries = []\<rparr>)) = None
   \<and> invalidatedQueries
       (fold perform (handleGmailNotification ''historyId=42'' False)
          \<lparr>cache = warmCache, invalidatedQueries = []\<rparr>)
       = [''emails'', ''mailboxes'', ''kanban-emails'']"
  using push_invalidates_store_before_refetch
    [where notification = "''historyId=42''" and listsFirst = False
       and pg = "\<lparr>cache = warmCache, invalidatedQueries = []\<rparr>"
       and mailboxId = "''INBOX''" and pageToken = "Some ''p2''"]
  by (simp add: handleGmailNotification_def isStoreInvalidation_def warmCache_def
        emptyCache_def getCachedMailboxes_def getCachedEmailList_def cacheMailboxes_def
        cacheEmailList_def)

end
